theory Spec2Isabelle
  imports Complex_Main "HOL-Library.Sublist" "HOL-Library.Word"
begin

section \<open>The worker's values\<close>

text \<open>
  \<^verbatim>\<open>worker.js\<close> is a Cloudflare Worker: one \<^verbatim>\<open>fetch(req, env, ctx)\<close> handler and seven
  helper functions. The embedding follows the file top to bottom. JavaScript is untyped,
  so the values that flow through the handler are a datatype of their own: the JSON
  values, and \<^verbatim>\<open>undefined\<close> for a property that is not there.

  A \<open>string\<close> is a JavaScript string read as its sequence of UTF-16 code units, one
  \<open>char\<close> per unit, so the embedding covers the texts whose units are below 256. The
  functions of the worker that look at single characters (\<^verbatim>\<open>sanitize\<close>,
  \<^verbatim>\<open>escapeHtml\<close>, the regular expression of \<^verbatim>\<open>contentType\<close>) work unit by unit.
\<close>

datatype js_value =
    JUndefined
  | JNull
  | JBool bool
  | JNum real
  | JStr string
  | JArr "js_value list"
  | JObj "(string \<times> js_value) list"

text \<open>A thrown \<^verbatim>\<open>Error\<close>: its name and its message. The wording of the messages the
  engine produces is the engine's own; no statement below depends on it.\<close>

datatype js_error = Error string string

abbreviation SyntaxError :: "string \<Rightarrow> js_error" where
  "SyntaxError m \<equiv> Error ''SyntaxError'' m"

abbreviation TypeError :: "string \<Rightarrow> js_error" where
  "TypeError m \<equiv> Error ''TypeError'' m"

text \<open>\<^verbatim>\<open>String(err)\<close>, that is \<^verbatim>\<open>Error.prototype.toString\<close>.\<close>

fun String_err :: "js_error \<Rightarrow> string" where
  "String_err (Error n m) = (if n = [] then m else if m = [] then n else n @ '': '' @ m)"

text \<open>Truthiness, as \<^verbatim>\<open>!x\<close>, \<^verbatim>\<open>x || y\<close> and \<^verbatim>\<open>if (x)\<close> read it.\<close>

fun truthy :: "js_value \<Rightarrow> bool" where
  "truthy JUndefined = False"
| "truthy JNull = False"
| "truthy (JBool b) = b"
| "truthy (JNum r) = (r \<noteq> 0)"
| "truthy (JStr s) = (s \<noteq> [])"
| "truthy (JArr xs) = True"
| "truthy (JObj ps) = True"

text \<open>
  Reading a property \<^verbatim>\<open>v.k\<close> (also by destructuring \<^verbatim>\<open>const { k } = v\<close>): a
  \<^verbatim>\<open>TypeError\<close> on \<^verbatim>\<open>null\<close> and \<^verbatim>\<open>undefined\<close>, the own property of an object, and
  \<^verbatim>\<open>undefined\<close> otherwise. The worker reads the names \<^verbatim>\<open>path\<close>, \<^verbatim>\<open>content\<close>,
  \<^verbatim>\<open>files\<close>, \<^verbatim>\<open>prompt\<close>, \<^verbatim>\<open>section\<close> and \<^verbatim>\<open>url\<close>, none of which is on a built-in
  prototype; \<open>get_prop\<close> is for such names.
\<close>

fun get_prop :: "js_value \<Rightarrow> string \<Rightarrow> js_error + js_value" where
  "get_prop JUndefined k = Inl (TypeError (''Cannot read properties of undefined (reading '' @ k @ '')''))"
| "get_prop JNull k = Inl (TypeError (''Cannot read properties of null (reading '' @ k @ '')''))"
| "get_prop (JObj ps) k = Inr (case map_of ps k of Some v \<Rightarrow> v | None \<Rightarrow> JUndefined)"
| "get_prop v k = Inr JUndefined"

text \<open>\<^verbatim>\<open>v?.k\<close> and \<^verbatim>\<open>v ?? d\<close>.\<close>

fun get_prop_opt :: "js_value \<Rightarrow> string \<Rightarrow> js_value" where
  "get_prop_opt (JObj ps) k = (case map_of ps k of Some v \<Rightarrow> v | None \<Rightarrow> JUndefined)"
| "get_prop_opt v k = JUndefined"

fun nullish :: "js_value \<Rightarrow> js_value \<Rightarrow> js_value" where
  "nullish JUndefined d = d"
| "nullish JNull d = d"
| "nullish v d = v"

text \<open>
  \<^verbatim>\<open>ToString\<close>, which a template literal applies to \<^verbatim>\<open>${section}\<close>. The text of a
  number is the engine's (\<open>nts\<close>). An array is its elements joined by commas, with
  \<^verbatim>\<open>null\<close> and \<^verbatim>\<open>undefined\<close> elements empty. An object from JSON is
  \<^verbatim>\<open>[object Object]\<close>, unless it has a property \<^verbatim>\<open>toString\<close> of its own: that one is
  not callable, and the conversion throws.
\<close>

fun to_string :: "(real \<Rightarrow> string) \<Rightarrow> js_value \<Rightarrow> js_error + string"
  and join_elems :: "(real \<Rightarrow> string) \<Rightarrow> js_value list \<Rightarrow> js_error + string"
where
  "to_string nts JUndefined = Inr ''undefined''"
| "to_string nts JNull = Inr ''null''"
| "to_string nts (JBool b) = Inr (if b then ''true'' else ''false'')"
| "to_string nts (JNum r) = Inr (nts r)"
| "to_string nts (JStr s) = Inr s"
| "to_string nts (JArr xs) = join_elems nts xs"
| "to_string nts (JObj ps) =
     (if map_of ps ''toString'' = None then Inr ''[object Object]''
      else Inl (TypeError ''Cannot convert object to primitive value''))"
| "join_elems nts [] = Inr []"
| "join_elems nts (x # xs) =
     (case (if x = JNull \<or> x = JUndefined then Inr [] else to_string nts x) of
        Inl e \<Rightarrow> Inl e
      | Inr s \<Rightarrow>
          (if xs = [] then Inr s
           else (case join_elems nts xs of Inl e \<Rightarrow> Inl e | Inr r \<Rightarrow> Inr (s @ '','' @ r))))"

section \<open>Strings\<close>

abbreviation code :: "char \<Rightarrow> nat" where
  "code c \<equiv> of_char c"

text \<open>\<^verbatim>\<open>s.endsWith(t)\<close>, \<^verbatim>\<open>s.startsWith(t)\<close> and \<^verbatim>\<open>s.includes(t)\<close>.\<close>

definition endsWith :: "string \<Rightarrow> string \<Rightarrow> bool" where
  "endsWith s t = (length t \<le> length s \<and> drop (length s - length t) s = t)"

definition startsWith :: "string \<Rightarrow> string \<Rightarrow> bool" where
  "startsWith s t = (take (length t) s = t)"

definition str_includes :: "string \<Rightarrow> string \<Rightarrow> bool" where
  "str_includes s t = list_ex (\<lambda>i. take (length t) (drop i s) = t) [0..<Suc (length s)]"

text \<open>\<^verbatim>\<open>s.split(sep)\<close> for a separator of one character: never the empty array.\<close>

fun split_on :: "char \<Rightarrow> string \<Rightarrow> string list" where
  "split_on sep [] = [[]]"
| "split_on sep (c # cs) =
     (if c = sep then [] # split_on sep cs
      else (case split_on sep cs of [] \<Rightarrow> [[c]] | w # ws \<Rightarrow> (c # w) # ws))"

text \<open>The decimal digits of a natural number: what a template literal makes of
  \<^verbatim>\<open>Date.now()\<close>, an integer far below \<open>10\<^sup>2\<^sup>1\<close>.\<close>

definition digit :: "nat \<Rightarrow> char" where
  "digit d = (''0123456789'' ! d)"

fun dec :: "nat \<Rightarrow> string" where
  "dec n = (if n < 10 then [digit n] else dec (n div 10) @ [digit (n mod 10)])"

declare dec.simps [simp del]

text \<open>\<^verbatim>\<open>k.toLowerCase()\<close> on units below 256: the letters A to Z, and the capital
  letters of Latin-1 (\<open>0xC0\<close> to \<open>0xDE\<close> but the multiplication sign \<open>0xD7\<close>).\<close>

definition toLowerCase_char :: "char \<Rightarrow> char" where
  "toLowerCase_char c =
     (if (65 \<le> code c \<and> code c \<le> 90) \<or> (192 \<le> code c \<and> code c \<le> 222 \<and> code c \<noteq> 215)
      then char_of (code c + 32) else c)"

definition toLowerCase :: "string \<Rightarrow> string" where
  "toLowerCase s = map toLowerCase_char s"

section \<open>The helper functions of worker.js\<close>

subsection \<open>contentType\<close>

text \<open>
  The regular expression \<^verbatim>\<open>/\.(png|jpg|jpeg|gif|webp|svg)$/i\<close>. With the flag \<^verbatim>\<open>i\<close>
  (and no flag \<^verbatim>\<open>u\<close>) two units match when their canonical forms are equal, the
  canonical form being the upper case; a unit from 128 on is never mapped to one below
  128, so only the letters a to z meet the letters of the pattern. \<^verbatim>\<open>test\<close> tries every
  start position; \<^verbatim>\<open>$\<close> asks for the end of the text after the extension.
\<close>

definition canonicalize :: "char \<Rightarrow> char" where
  "canonicalize c = (if 97 \<le> code c \<and> code c \<le> 122 then char_of (code c - 32) else c)"

definition image_alternatives :: "string list" where
  "image_alternatives = [''png'', ''jpg'', ''jpeg'', ''gif'', ''webp'', ''svg'']"

definition image_regex_test :: "string \<Rightarrow> bool" where
  "image_regex_test path =
     list_ex (\<lambda>i. list_ex (\<lambda>alt. map canonicalize (drop i path) = map canonicalize (CHR ''.'' # alt))
                     image_alternatives)
       [0..<Suc (length path)]"

definition contentType :: "string \<Rightarrow> string" where
  "contentType path =
     (if endsWith path ''.html'' then ''text/html; charset=utf-8''
      else if endsWith path ''.css'' then ''text/css; charset=utf-8''
      else if endsWith path ''.js'' then ''text/javascript; charset=utf-8''
      else if image_regex_test path then ''image/*''
      else ''text/plain; charset=utf-8'')"

subsection \<open>sanitize and escapeHtml\<close>

text \<open>\<^verbatim>\<open>sanitize(name="file")\<close>: the default stands in for \<^verbatim>\<open>undefined\<close> (\<open>None\<close>)
  only. The class \<^verbatim>\<open>[^a-zA-Z0-9._-]\<close> is replaced unit by unit.\<close>

definition name_char :: "char \<Rightarrow> bool" where
  "name_char c =
     ((97 \<le> code c \<and> code c \<le> 122) \<or> (65 \<le> code c \<and> code c \<le> 90) \<or>
      (48 \<le> code c \<and> code c \<le> 57) \<or> c = CHR ''.'' \<or> c = CHR ''_'' \<or> c = CHR ''-'')"

definition sanitize :: "string option \<Rightarrow> string" where
  "sanitize name =
     map (\<lambda>c. if name_char c then c else CHR ''_'') (case name of None \<Rightarrow> ''file'' | Some n \<Rightarrow> n)"

text \<open>\<^verbatim>\<open>escapeHtml(s="")\<close>: the five characters \<^verbatim>\<open>& < > " '\<close> become entities. A value
  that is not a string has no method \<^verbatim>\<open>replace\<close>.\<close>

definition escape_char :: "char \<Rightarrow> string" where
  "escape_char c =
     (if c = CHR ''&'' then ''&amp;''
      else if c = CHR ''<'' then ''&lt;''
      else if c = CHR ''>'' then ''&gt;''
      else if c = CHR 0x22 then ''&quot;''
      else if c = CHR 0x27 then ''&#39;''
      else [c])"

definition escape_text :: "string \<Rightarrow> string" where
  "escape_text s = concat (map escape_char s)"

fun escapeHtml :: "js_value \<Rightarrow> js_error + string" where
  "escapeHtml JUndefined = Inr (escape_text [])"
| "escapeHtml (JStr s) = Inr (escape_text s)"
| "escapeHtml JNull = Inl (TypeError ''Cannot read properties of null (reading replace)'')"
| "escapeHtml v = Inl (TypeError ''s.replace is not a function'')"

subsection \<open>corsHeaders and json\<close>

datatype body = NoBody | TextBody string | JsonBody js_value

text \<open>A \<^verbatim>\<open>Response\<close>. \<open>JsonBody v\<close> is the text \<^verbatim>\<open>JSON.stringify(v)\<close>, which leaves out
  the properties whose value is \<^verbatim>\<open>undefined\<close>.\<close>

record response =
  status :: nat
  headers :: "(string \<times> string) list"
  body :: body

definition corsHeaders :: "bool \<Rightarrow> string \<Rightarrow> (string \<times> string) list" where
  "corsHeaders allow origin =
     [(''Access-Control-Allow-Methods'', ''GET,POST,OPTIONS''),
      (''Access-Control-Allow-Headers'', ''content-type, authorization''),
      (''Access-Control-Max-Age'', ''86400'')]
     @ (if allow then [(''Access-Control-Allow-Origin'', origin)] else [])"

definition json :: "js_value \<Rightarrow> bool \<Rightarrow> string \<Rightarrow> nat \<Rightarrow> response" where
  "json obj allow origin st =
     \<lparr>status = st,
      headers = corsHeaders allow origin @ [(''Content-Type'', ''application/json'')],
      body = JsonBody obj\<rparr>"

subsection \<open>safeJson\<close>

text \<open>
  \<^verbatim>\<open>JSON.parse\<close> is the engine's. A text enters the embedding as what \<^verbatim>\<open>JSON.parse\<close>
  makes of it: the empty text, a text that parses to a value, or a text that is not
  empty and on which \<^verbatim>\<open>JSON.parse\<close> throws a \<^verbatim>\<open>SyntaxError\<close> with the message given.
\<close>

datatype jtext = EmptyText | ParsesTo js_value | Unparsable string

fun JSON_parse :: "jtext \<Rightarrow> js_error + js_value" where
  "JSON_parse EmptyText = Inl (SyntaxError ''Unexpected end of JSON input'')"
| "JSON_parse (ParsesTo v) = Inr v"
| "JSON_parse (Unparsable m) = Inl (SyntaxError m)"

text \<open>\<^verbatim>\<open>txt ? JSON.parse(txt) : {}\<close>\<close>

definition safeJson :: "jtext \<Rightarrow> js_error + js_value" where
  "safeJson txt = (if txt = EmptyText then Inr (JObj []) else JSON_parse txt)"

section \<open>The collaborators\<close>

subsection \<open>The bucket\<close>

text \<open>
  Modelled from the spec: the bucket bound to \<^verbatim>\<open>env.SITE\<close> is storage outside the
  repository. The specification gives its interface, \<^verbatim>\<open>list(prefix)\<close> (a sequence of
  \<^verbatim>\<open>{key, size, uploadedAt?}\<close> for the keys that start with the prefix), \<^verbatim>\<open>get(key)\<close>
  (a blob with a \<^verbatim>\<open>text()\<close> accessor, or none) and \<^verbatim>\<open>put(key, data, contentType)\<close> with
  \<^verbatim>\<open>data\<close> a string or bytes, and says that a put overwrites. The bucket is a list of
  keys with their blobs, in the order the backend lists them; a put of a new key comes
  last. The worker reads the metadata of a listed object as \<^verbatim>\<open>obj.key\<close>, \<^verbatim>\<open>obj.size\<close>
  and \<^verbatim>\<open>obj.uploaded\<close>. The interface leaves the timestamp optional, and a blob put
  here carries none.
\<close>

datatype blob_data = Text string | Bytes "8 word list"

record blob =
  blob_data :: blob_data
  blob_contentType :: string
  blob_uploaded :: "nat option"

type_synonym store = "(string \<times> blob) list"

record entry =
  obj_key :: string
  obj_size :: nat
  obj_uploaded :: "nat option"

text \<open>The size of a text in bytes (UTF-8: one byte for a unit below 128, two up to 255).\<close>

fun blob_size :: "blob_data \<Rightarrow> nat" where
  "blob_size (Text s) = sum_list (map (\<lambda>c. if code c < 128 then 1 else 2) s)"
| "blob_size (Bytes bs) = length bs"

definition SITE_list :: "store \<Rightarrow> string \<Rightarrow> entry list" where
  "SITE_list st pre =
     map (\<lambda>(k, b). \<lparr>obj_key = k, obj_size = blob_size (blob_data b), obj_uploaded = blob_uploaded b\<rparr>)
       (filter (\<lambda>(k, b). startsWith k pre) st)"

definition SITE_get :: "store \<Rightarrow> string \<Rightarrow> blob option" where
  "SITE_get st k = map_of st k"

fun store_update :: "string \<Rightarrow> blob \<Rightarrow> store \<Rightarrow> store" where
  "store_update k b [] = [(k, b)]"
| "store_update k b (p # ps) = (if fst p = k then (k, b) # ps else p # store_update k b ps)"

definition SITE_put :: "store \<Rightarrow> string \<Rightarrow> blob_data \<Rightarrow> string \<Rightarrow> store" where
  "SITE_put st k d ct = store_update k \<lparr>blob_data = d, blob_contentType = ct, blob_uploaded = None\<rparr> st"

text \<open>The data the worker hands to \<^verbatim>\<open>put\<close> is \<^verbatim>\<open>content ?? ""\<close>, any JSON value. The
  interface takes a string or bytes; the binding refuses anything else with a
  \<^verbatim>\<open>TypeError\<close>.\<close>

fun put_data :: "js_value \<Rightarrow> js_error + blob_data" where
  "put_data (JStr s) = Inr (Text s)"
| "put_data v = Inl (TypeError ''put: the value is neither a string nor bytes'')"

subsection \<open>The engine and the network\<close>

text \<open>
  What the handler takes from the JavaScript engine and from the network, as
  parameters: the clock (\<^verbatim>\<open>Date.now()\<close>, in milliseconds), \<^verbatim>\<open>Date.prototype.toISOString\<close>,
  the text of a number, the UTF-8 decoder behind \<^verbatim>\<open>obj.text()\<close>, and the outbound
  \<^verbatim>\<open>fetch(target, { method: "GET" })\<close> of the route \<^verbatim>\<open>/api/analyze-cors\<close>, which returns a
  status and the response headers in the order \<^verbatim>\<open>forEach\<close> visits them, or throws.
\<close>

record upstream =
  up_status :: nat
  up_headers :: "(string \<times> string) list"

record runtime =
  Date_now :: nat
  toISOString :: "nat \<Rightarrow> string"
  Number_toString :: "real \<Rightarrow> string"
  utf8_decode :: "8 word list \<Rightarrow> string"
  outbound_fetch :: "js_value \<Rightarrow> js_error + upstream"

fun blob_text :: "runtime \<Rightarrow> blob_data \<Rightarrow> string" where
  "blob_text rt (Text s) = s"
| "blob_text rt (Bytes bs) = utf8_decode rt bs"

subsection \<open>The request and the environment\<close>

text \<open>
  A request: its method, the path and the query of \<^verbatim>\<open>new URL(req.url)\<close> (the runtime
  hands the handler an absolute URL, so that the constructor does not throw),
  \<^verbatim>\<open>req.headers.get\<close> (\<open>None\<close> for \<^verbatim>\<open>null\<close>), the body as \<^verbatim>\<open>req.text()\<close> gives it, and
  the body as \<^verbatim>\<open>req.formData()\<close> gives it: the fields in order, or the error thrown on a
  body that is not a form. A field is a string or a file; the name of a file is \<open>None\<close>
  when \<^verbatim>\<open>file.name\<close> is \<^verbatim>\<open>undefined\<close>.
\<close>

record form_file =
  file_name :: "string option"
  file_type :: string
  file_bytes :: "8 word list"

datatype form_value = FormString string | FormFile form_file

record request =
  req_method :: string
  req_pathname :: string
  req_searchParams :: "(string \<times> string) list"
  req_header :: "string \<Rightarrow> string option"
  req_text :: jtext
  req_formData :: "js_error + (string \<times> form_value) list"

text \<open>The environment: the variable \<^verbatim>\<open>ALLOW_ORIGINS\<close> (\<open>None\<close> when it is not set) and
  the bucket \<^verbatim>\<open>SITE\<close>.\<close>

record env =
  ALLOW_ORIGINS :: "jtext option"
  SITE :: store

section \<open>The routes\<close>

text \<open>
  Each route of the \<^verbatim>\<open>try\<close> block is a function of its own, in the order of the source.
  A route that only reads returns \<open>js_error + response\<close>, \<open>Inl\<close> being the exception
  thrown; a route that writes returns the bucket as it leaves it as well, also when it
  throws.
\<close>

subsection \<open>/api/ping, /api/list, /api/read\<close>

definition handle_ping :: "runtime \<Rightarrow> bool \<Rightarrow> string \<Rightarrow> response" where
  "handle_ping rt allow origin =
     json (JObj [(''ok'', JBool True), (''time'', JStr (toISOString rt (Date_now rt)))]) allow origin 200"

text \<open>\<^verbatim>\<open>{ key: obj.key, size: obj.size, uploaded: obj.uploaded?.toISOString?.() }\<close>\<close>

definition list_item :: "runtime \<Rightarrow> entry \<Rightarrow> js_value" where
  "list_item rt obj =
     JObj [(''key'', JStr (obj_key obj)),
           (''size'', JNum (real (obj_size obj))),
           (''uploaded'', (case obj_uploaded obj of None \<Rightarrow> JUndefined | Some t \<Rightarrow> JStr (toISOString rt t)))]"

definition handle_list :: "runtime \<Rightarrow> request \<Rightarrow> bool \<Rightarrow> string \<Rightarrow> store \<Rightarrow> response" where
  "handle_list rt req allow origin st =
     (let pre = (case map_of (req_searchParams req) ''prefix'' of None \<Rightarrow> [] | Some p \<Rightarrow> p);
          items = map (list_item rt) (SITE_list st pre)
      in json (JObj [(''ok'', JBool True), (''items'', JArr items)]) allow origin 200)"

definition handle_read :: "runtime \<Rightarrow> request \<Rightarrow> bool \<Rightarrow> string \<Rightarrow> store \<Rightarrow> response" where
  "handle_read rt req allow origin st =
     (case map_of (req_searchParams req) ''path'' of
        None \<Rightarrow> json (JObj [(''ok'', JBool False), (''error'', JStr ''path required'')]) allow origin 400
      | Some path \<Rightarrow>
          if path = [] then
            json (JObj [(''ok'', JBool False), (''error'', JStr ''path required'')]) allow origin 400
          else
            (case SITE_get st path of
               None \<Rightarrow> json (JObj [(''ok'', JBool False), (''error'', JStr ''not found'')]) allow origin 404
             | Some obj \<Rightarrow>
                 \<lparr>status = 200,
                  headers = corsHeaders allow origin @ [(''Content-Type'', contentType path)],
                  body = TextBody (blob_text rt (blob_data obj))\<rparr>))"

subsection \<open>/api/write and /api/apply-diff\<close>

text \<open>
  Both routes make the call
  \<^verbatim>\<open>env.SITE.put(path, content ?? "", { httpMetadata: { contentType: contentType(path) } })\<close>
  with a truthy \<^verbatim>\<open>path\<close>. The arguments are evaluated before the call: a path that is not
  a string has no method \<^verbatim>\<open>endsWith\<close>, so \<^verbatim>\<open>contentType(path)\<close> throws and nothing is put.
\<close>

definition put_file :: "js_value \<Rightarrow> js_value \<Rightarrow> store \<Rightarrow> js_error + store" where
  "put_file path content st =
     (case path of
        JStr p \<Rightarrow>
          (case put_data (nullish content (JStr [])) of
             Inl e \<Rightarrow> Inl e
           | Inr d \<Rightarrow> Inr (SITE_put st p d (contentType p)))
      | _ \<Rightarrow> Inl (TypeError ''path.endsWith is not a function''))"

definition handle_write :: "request \<Rightarrow> bool \<Rightarrow> string \<Rightarrow> store \<Rightarrow> (js_error + response) \<times> store" where
  "handle_write req allow origin st =
     (case safeJson (req_text req) of
        Inl e \<Rightarrow> (Inl e, st)
      | Inr v \<Rightarrow>
          (case get_prop v ''path'' of
             Inl e \<Rightarrow> (Inl e, st)
           | Inr path \<Rightarrow>
               (case get_prop v ''content'' of
                  Inl e \<Rightarrow> (Inl e, st)
                | Inr content \<Rightarrow>
                    if \<not> truthy path then
                      (Inr (json (JObj [(''ok'', JBool False), (''error'', JStr ''path required'')])
                              allow origin 400), st)
                    else
                      (case put_file path content st of
                         Inl e \<Rightarrow> (Inl e, st)
                       | Inr st' \<Rightarrow>
                           (Inr (json (JObj [(''ok'', JBool True), (''path'', path)]) allow origin 200),
                            st')))))"

text \<open>The loop \<^verbatim>\<open>for (const f of payload.files)\<close>: \<open>Some e\<close> when an iteration throws
  \<open>e\<close>, with the bucket as the earlier iterations left it.\<close>

fun write_files :: "js_value list \<Rightarrow> store \<Rightarrow> js_error option \<times> store" where
  "write_files [] st = (None, st)"
| "write_files (f # fs) st =
     (case get_prop f ''path'' of
        Inl e \<Rightarrow> (Some e, st)
      | Inr path \<Rightarrow>
          if \<not> truthy path then write_files fs st
          else
            (case get_prop f ''content'' of
               Inl e \<Rightarrow> (Some e, st)
             | Inr content \<Rightarrow>
                 (case put_file path content st of
                    Inl e \<Rightarrow> (Some e, st)
                  | Inr st' \<Rightarrow> write_files fs st')))"

definition handle_apply_diff :: "request \<Rightarrow> bool \<Rightarrow> string \<Rightarrow> store \<Rightarrow> (js_error + response) \<times> store" where
  "handle_apply_diff req allow origin st =
     (case safeJson (req_text req) of
        Inl e \<Rightarrow> (Inl e, st)
      | Inr payload \<Rightarrow>
          (case get_prop_opt payload ''files'' of
             JArr files \<Rightarrow>
               (case write_files files st of
                  (Some e, st') \<Rightarrow> (Inl e, st')
                | (None, st') \<Rightarrow>
                    (Inr (json (JObj [(''ok'', JBool True), (''applied'', JNum (real (length files)))])
                            allow origin 200), st'))
           | _ \<Rightarrow>
               (Inr (json (JObj [(''ok'', JBool False),
                                 (''error'', JStr ''Provide files[] or unified diff (TODO)'')])
                       allow origin 400), st)))"

subsection \<open>/api/generate-html\<close>

definition generated_html :: "string \<Rightarrow> string \<Rightarrow> string" where
  "generated_html sec heading =
     ''<!-- generated: '' @ sec @ '' -->'' @ [CHR 0x0A] @
     ''<section class='' @ [CHR 0x22] @ ''card'' @ [CHR 0x22] @ ''>'' @ [CHR 0x0A] @
     ''  <h2>'' @ heading @ ''</h2>'' @ [CHR 0x0A] @
     ''  <p>This is a generated placeholder. Replace with model output when keys are set.</p>'' @ [CHR 0x0A] @
     ''</section>''"

definition generated_css :: string where
  "generated_css =
     ''.card{background:#101a2e;border:1px solid #1f2e4f;border-radius:20px;padding:16px;color:#e8eefc}''"

text \<open>\<^verbatim>\<open>const { prompt, section = "page" } = await safeJson(req)\<close>: the default stands in for
  \<^verbatim>\<open>undefined\<close> only. The template literal converts \<^verbatim>\<open>section\<close> to a string before it
  evaluates \<^verbatim>\<open>escapeHtml(prompt || "New Section")\<close>.\<close>

definition handle_generate_html :: "runtime \<Rightarrow> request \<Rightarrow> bool \<Rightarrow> string \<Rightarrow> js_error + response" where
  "handle_generate_html rt req allow origin =
     (case safeJson (req_text req) of
        Inl e \<Rightarrow> Inl e
      | Inr v \<Rightarrow>
          (case get_prop v ''prompt'' of
             Inl e \<Rightarrow> Inl e
           | Inr prompt \<Rightarrow>
               (case get_prop v ''section'' of
                  Inl e \<Rightarrow> Inl e
                | Inr s \<Rightarrow>
                    (case to_string (Number_toString rt) (if s = JUndefined then JStr ''page'' else s) of
                       Inl e \<Rightarrow> Inl e
                     | Inr sec \<Rightarrow>
                         (case escapeHtml (if truthy prompt then prompt else JStr ''New Section'') of
                            Inl e \<Rightarrow> Inl e
                          | Inr heading \<Rightarrow>
                              Inr (json (JObj [(''ok'', JBool True),
                                               (''html'', JStr (generated_html sec heading)),
                                               (''css'', JStr generated_css),
                                               (''js'', JStr [])])
                                     allow origin 200))))))"

subsection \<open>/api/analyze-cors\<close>

text \<open>\<^verbatim>\<open>headers[k.toLowerCase()] = v\<close> on an object that starts as \<^verbatim>\<open>{}\<close>: a new
  property comes last, an old one keeps its place, and an assignment to \<^verbatim>\<open>__proto__\<close>
  of a string adds nothing. (Property names that are array indices, which an object lists
  first, are not told apart.)\<close>

fun obj_set :: "(string \<times> string) list \<Rightarrow> string \<Rightarrow> string \<Rightarrow> (string \<times> string) list" where
  "obj_set [] k v = (if k = ''__proto__'' then [] else [(k, v)])"
| "obj_set (p # ps) k v = (if fst p = k then (k, v) # ps else p # obj_set ps k v)"

text \<open>\<^verbatim>\<open>!h[name]\<close>: the header is missing or empty.\<close>

definition missing :: "(string \<times> string) list \<Rightarrow> string \<Rightarrow> bool" where
  "missing h name = (case map_of h name of None \<Rightarrow> True | Some v \<Rightarrow> v = [])"

text \<open>The last message has the character U+2019 in \<^verbatim>\<open>doesn't\<close>, a unit beyond 255: it
  is written here by the three bytes of its UTF-8 form.\<close>

definition corsSuggestions :: "(string \<times> string) list \<Rightarrow> string list" where
  "corsSuggestions h =
     (let out =
        (if missing h ''access-control-allow-origin''
         then [''Add Access-Control-Allow-Origin for your site origin (or reflect allowlist).''] else []) @
        (if missing h ''access-control-allow-methods''
         then [''Add Access-Control-Allow-Methods: GET,POST,OPTIONS.''] else []) @
        (if missing h ''access-control-allow-headers''
         then [''Add Access-Control-Allow-Headers: content-type, authorization.''] else [])
      in if out \<noteq> [] then out
         else [''CORS looks okay or target doesn'' @ [CHR 0xE2, CHR 0x80, CHR 0x99] @
               ''t support CORS (use server-to-server fetch).''])"

definition handle_analyze_cors :: "runtime \<Rightarrow> request \<Rightarrow> bool \<Rightarrow> string \<Rightarrow> js_error + response" where
  "handle_analyze_cors rt req allow origin =
     (case safeJson (req_text req) of
        Inl e \<Rightarrow> Inl e
      | Inr v \<Rightarrow>
          (case get_prop v ''url'' of
             Inl e \<Rightarrow> Inl e
           | Inr target \<Rightarrow>
               if \<not> truthy target then
                 Inr (json (JObj [(''ok'', JBool False), (''error'', JStr ''url required'')]) allow origin 400)
               else
                 (case outbound_fetch rt target of
                    Inl e \<Rightarrow>
                      Inr (json (JObj [(''ok'', JBool False), (''error'', JStr ''fetch_failed''),
                                       (''detail'', JStr (String_err e))])
                             allow origin 502)
                  | Inr res \<Rightarrow>
                      (let hs = foldl (\<lambda>h (k, v). obj_set h (toLowerCase k) v) [] (up_headers res);
                           suggestions = corsSuggestions hs
                       in Inr (json (JObj [(''ok'', JBool True),
                                           (''status'', JNum (real (up_status res))),
                                           (''headers'', JObj (map (\<lambda>(k, v). (k, JStr v)) hs)),
                                           (''suggestions'', JArr (map JStr suggestions))])
                                 allow origin 200)))))"

subsection \<open>/api/upload and /api/deploy\<close>

text \<open>\<^verbatim>\<open>form.get("file")\<close> is the first field of that name, or \<^verbatim>\<open>null\<close>; the route goes on
  with a file only.\<close>

definition upload_key :: "runtime \<Rightarrow> form_file \<Rightarrow> string" where
  "upload_key rt file = ''assets/'' @ dec (Date_now rt) @ ''_'' @ sanitize (file_name file)"

definition handle_upload :: "runtime \<Rightarrow> request \<Rightarrow> bool \<Rightarrow> string \<Rightarrow> store \<Rightarrow> (js_error + response) \<times> store" where
  "handle_upload rt req allow origin st =
     (let ct = (case req_header req ''Content-Type'' of None \<Rightarrow> [] | Some c \<Rightarrow> c) in
      if \<not> startsWith ct ''multipart/form-data'' then
        (Inr (json (JObj [(''ok'', JBool False), (''error'', JStr ''multipart/form-data required'')])
                allow origin 400), st)
      else
        (case req_formData req of
           Inl e \<Rightarrow> (Inl e, st)
         | Inr form \<Rightarrow>
             (case map_of form ''file'' of
                Some (FormFile file) \<Rightarrow>
                  (let key = upload_key rt file in
                   (Inr (json (JObj [(''ok'', JBool True), (''key'', JStr key),
                                     (''url'', JStr (''/assets/'' @ last (split_on CHR ''/'' key)))])
                           allow origin 200),
                    SITE_put st key (Bytes (file_bytes file))
                      (if file_type file = [] then ''application/octet-stream'' else file_type file)))
              | _ \<Rightarrow>
                  (Inr (json (JObj [(''ok'', JBool False), (''error'', JStr ''file required'')])
                          allow origin 400), st))))"

definition handle_deploy :: "bool \<Rightarrow> string \<Rightarrow> response" where
  "handle_deploy allow origin =
     json (JObj [(''ok'', JBool False),
                 (''message'', JStr ''Deploy not wired yet. Choose Pages Direct Upload or Git mode.'')])
       allow origin 501"

section \<open>The dispatcher\<close>

text \<open>The body of the \<^verbatim>\<open>try\<close> block: the first route whose test holds.\<close>

definition router :: "runtime \<Rightarrow> request \<Rightarrow> bool \<Rightarrow> string \<Rightarrow> store \<Rightarrow> (js_error + response) \<times> store" where
  "router rt req allow origin st =
     (if req_pathname req = ''/api/ping'' then (Inr (handle_ping rt allow origin), st)
      else if req_pathname req = ''/api/list'' \<and> req_method req = ''GET'' then
        (Inr (handle_list rt req allow origin st), st)
      else if req_pathname req = ''/api/read'' \<and> req_method req = ''GET'' then
        (Inr (handle_read rt req allow origin st), st)
      else if req_pathname req = ''/api/write'' \<and> req_method req = ''POST'' then
        handle_write req allow origin st
      else if req_pathname req = ''/api/apply-diff'' \<and> req_method req = ''POST'' then
        handle_apply_diff req allow origin st
      else if req_pathname req = ''/api/generate-html'' \<and> req_method req = ''POST'' then
        (handle_generate_html rt req allow origin, st)
      else if req_pathname req = ''/api/analyze-cors'' \<and> req_method req = ''POST'' then
        (handle_analyze_cors rt req allow origin, st)
      else if req_pathname req = ''/api/upload'' \<and> req_method req = ''POST'' then
        handle_upload rt req allow origin st
      else if req_pathname req = ''/api/deploy'' \<and> req_method req = ''POST'' then
        (Inr (handle_deploy allow origin), st)
      else
        (Inr (json (JObj [(''ok'', JBool False), (''error'', JStr ''Route not found'')]) allow origin 404),
         st))"

text \<open>
  Lines 11 to 13, before the \<^verbatim>\<open>try\<close>:
  \<^verbatim>\<open>origins = JSON.parse(env.ALLOW_ORIGINS || "[]")\<close>,
  \<^verbatim>\<open>origin = req.headers.get("Origin") || ""\<close> and \<^verbatim>\<open>allow = origins.includes(origin)\<close>.
  \<^verbatim>\<open>includes\<close> is the method of an array (is the string an element?) or of a string (is
  it a part?); no other JSON value has it.
\<close>

definition config_text :: "env \<Rightarrow> jtext" where
  "config_text e =
     (case ALLOW_ORIGINS e of
        None \<Rightarrow> ParsesTo (JArr [])
      | Some t \<Rightarrow> if t = EmptyText then ParsesTo (JArr []) else t)"

definition request_origin :: "request \<Rightarrow> string" where
  "request_origin req = (case req_header req ''Origin'' of None \<Rightarrow> [] | Some h \<Rightarrow> h)"

fun origins_includes :: "js_value \<Rightarrow> string \<Rightarrow> js_error + bool" where
  "origins_includes (JArr xs) origin = Inr (JStr origin \<in> set xs)"
| "origins_includes (JStr s) origin = Inr (str_includes s origin)"
| "origins_includes JNull origin = Inl (TypeError ''Cannot read properties of null (reading includes)'')"
| "origins_includes JUndefined origin = Inl (TypeError ''Cannot read properties of undefined (reading includes)'')"
| "origins_includes v origin = Inl (TypeError ''origins.includes is not a function'')"

definition allow_decision :: "env \<Rightarrow> string \<Rightarrow> js_error + bool" where
  "allow_decision e origin =
     (case JSON_parse (config_text e) of
        Inl err \<Rightarrow> Inl err
      | Inr origins \<Rightarrow> origins_includes origins origin)"

text \<open>
  The handler. \<open>Inl\<close> is an exception that leaves \<^verbatim>\<open>fetch\<close>: the promise rejects and the
  worker has made no \<^verbatim>\<open>Response\<close>. The second component is the bucket after the request.
\<close>

definition fetch :: "runtime \<Rightarrow> request \<Rightarrow> env \<Rightarrow> (js_error + response) \<times> store" where
  "fetch rt req e =
     (let origin = request_origin req in
      case allow_decision e origin of
        Inl err \<Rightarrow> (Inl err, SITE e)
      | Inr allow \<Rightarrow>
          if req_method req = ''OPTIONS'' then
            (Inr \<lparr>status = 204, headers = corsHeaders allow origin, body = NoBody\<rparr>, SITE e)
          else
            (case router rt req allow origin (SITE e) of
               (Inl err, st) \<Rightarrow>
                 (Inr (json (JObj [(''ok'', JBool False), (''error'', JStr ''server_error''),
                                   (''detail'', JStr (String_err err))])
                         allow origin 500), st)
             | (Inr resp, st) \<Rightarrow> (Inr resp, st)))"

section \<open>The specification's words, for comparison\<close>

text \<open>The definitions of this section are not of the code: they word what the
  specification says, or the inputs a statement is about, so that the statements below
  can compare the code with them.\<close>














section \<open>Concrete instances\<close>

text \<open>
  A runtime, an environment and some requests at which the statements below are
  instantiated. The clock reads 1700000000000 ms, and \<open>toISOString\<close> is right at the
  two instants that occur. The allowlist is the one of the comment at the head of \<^verbatim>\<open>worker.js\<close>;
  the bucket holds two pages and an image.
\<close>

definition example_runtime :: runtime where
  "example_runtime =
     \<lparr>Date_now = 1700000000000,
      toISOString = (\<lambda>t. if t = 1700000000000 then ''2023-11-14T22:13:20.000Z''
                         else if t = 1690000000000 then ''2023-07-22T04:26:40.000Z''
                         else ''1970-01-01T00:00:00.000Z''),
      Number_toString = (\<lambda>r. if r = 5 then ''5'' else ''0''),
      utf8_decode = map (\<lambda>b. char_of (unat b)),
      outbound_fetch = (\<lambda>target. Inl (TypeError ''fetch failed''))\<rparr>"

definition example_bucket :: store where
  "example_bucket =
     [(''index.html'', \<lparr>blob_data = Text ''<h1>MB</h1>'', blob_contentType = ''text/html; charset=utf-8'',
                         blob_uploaded = Some 1690000000000\<rparr>),
      (''assets/logo.png'', \<lparr>blob_data = Bytes [137, 80, 78, 71], blob_contentType = ''image/png'',
                              blob_uploaded = None\<rparr>),
      (''about.html'', \<lparr>blob_data = Text ''<p>about</p>'', blob_contentType = ''text/html; charset=utf-8'',
                         blob_uploaded = Some 1690000000000\<rparr>)]"

definition example_env :: env where
  "example_env =
     \<lparr>ALLOW_ORIGINS = Some (ParsesTo (JArr [JStr ''https://mb.meyoustudios.com'', JStr ''https://mb.pages.dev''])),
      SITE = example_bucket\<rparr>"

text \<open>A request from the first origin of the allowlist, and one from an origin that is
  not on it.\<close>

definition example_request :: "string \<Rightarrow> string \<Rightarrow> (string \<times> string) list \<Rightarrow> jtext \<Rightarrow> request" where
  "example_request m p q t =
     \<lparr>req_method = m, req_pathname = p, req_searchParams = q,
      req_header = map_of [(''Origin'', ''https://mb.meyoustudios.com''), (''Content-Type'', ''application/json'')],
      req_text = t,
      req_formData = Inl (TypeError ''Unrecognized Content-Type header value'')\<rparr>"

definition foreign_request :: "string \<Rightarrow> string \<Rightarrow> request" where
  "foreign_request m p =
     \<lparr>req_method = m, req_pathname = p, req_searchParams = [],
      req_header = map_of [(''Origin'', ''https://evil.example'')],
      req_text = EmptyText,
      req_formData = Inl (TypeError ''Unrecognized Content-Type header value'')\<rparr>"


section \<open>Routing\<close>

lemma fetch_router:
  assumes "allow_decision e (request_origin req) = Inr allow"
    and "req_method req \<noteq> ''OPTIONS''"
    and "router rt req allow (request_origin req) (SITE e) = (Inr resp, st')"
  shows "fetch rt req e = (Inr resp, st')"
  using assms by (simp add: fetch_def)


lemma safeJson_simps:
  "safeJson EmptyText = Inr (JObj [])"
  "safeJson (ParsesTo v) = Inr v"
  "safeJson (Unparsable m) = Inl (SyntaxError m)"
  by (simp_all add: safeJson_def)

lemma router_write:
  "req_pathname req = ''/api/write'' \<Longrightarrow> req_method req = ''POST'' \<Longrightarrow>
   router rt req allow origin st = handle_write req allow origin st"
  by (simp add: router_def)






lemma router_read:
  "req_pathname req = ''/api/read'' \<Longrightarrow> req_method req = ''GET'' \<Longrightarrow>
   router rt req allow origin st = (Inr (handle_read rt req allow origin st), st)"
  by (simp add: router_def)

lemma post_not_options: "req_method req = ''POST'' \<Longrightarrow> req_method req \<noteq> ''OPTIONS''"
  by simp

lemma get_not_options: "req_method req = ''GET'' \<Longrightarrow> req_method req \<noteq> ''OPTIONS''"
  by simp

section \<open>What every response carries\<close>

lemma json_headers:
  "headers (json obj allow origin n) = corsHeaders allow origin @ [(''Content-Type'', ''application/json'')]"
  by (simp add: json_def)

lemma handle_read_headers:
  "\<exists>ct. headers (handle_read rt req allow origin st) = corsHeaders allow origin @ [(''Content-Type'', ct)]"
  by (simp add: handle_read_def json_headers split: option.splits)

lemma handle_write_headers:
  "handle_write req allow origin st = (Inr resp, st') \<Longrightarrow>
   \<exists>ct. headers resp = corsHeaders allow origin @ [(''Content-Type'', ct)]"
  by (auto simp: handle_write_def json_headers split: sum.splits if_splits)

lemma handle_apply_diff_headers:
  "handle_apply_diff req allow origin st = (Inr resp, st') \<Longrightarrow>
   \<exists>ct. headers resp = corsHeaders allow origin @ [(''Content-Type'', ct)]"
  by (auto simp: handle_apply_diff_def json_headers
      split: sum.splits js_value.splits prod.splits option.splits)

lemma handle_generate_html_headers:
  "handle_generate_html rt req allow origin = Inr resp \<Longrightarrow>
   \<exists>ct. headers resp = corsHeaders allow origin @ [(''Content-Type'', ct)]"
  by (auto simp: handle_generate_html_def json_headers split: sum.splits)

lemma handle_analyze_cors_headers:
  "handle_analyze_cors rt req allow origin = Inr resp \<Longrightarrow>
   \<exists>ct. headers resp = corsHeaders allow origin @ [(''Content-Type'', ct)]"
  by (auto simp: handle_analyze_cors_def json_headers Let_def split: sum.splits if_splits)

lemma handle_upload_headers:
  "handle_upload rt req allow origin st = (Inr resp, st') \<Longrightarrow>
   \<exists>ct. headers resp = corsHeaders allow origin @ [(''Content-Type'', ct)]"
  by (auto simp: handle_upload_def json_headers Let_def
      split: sum.splits if_splits option.splits form_value.splits)

lemma router_headers:
  "router rt req allow origin st = (Inr resp, st') \<Longrightarrow>
   \<exists>ct. headers resp = corsHeaders allow origin @ [(''Content-Type'', ct)]"
  unfolding router_def
  using handle_read_headers [of rt req allow origin st]
  by (auto simp: handle_ping_def handle_list_def handle_deploy_def json_headers Let_def
      split: if_splits
      dest: handle_write_headers handle_apply_diff_headers handle_generate_html_headers
        handle_analyze_cors_headers handle_upload_headers)

text \<open>Once the decision of lines 11 to 13 is made, a request that is not a preflight gets
  a response, from a route or from the \<^verbatim>\<open>catch\<close>, with the CORS headers and a content
  type.\<close>

lemma fetch_headers:
  assumes "allow_decision e (request_origin req) = Inr allow"
    and "req_method req \<noteq> ''OPTIONS''"
  shows "\<exists>resp st' ct. fetch rt req e = (Inr resp, st') \<and>
      headers resp = corsHeaders allow (request_origin req) @ [(''Content-Type'', ct)]"
proof (cases "router rt req allow (request_origin req) (SITE e)")
  case (Pair r st)
  show ?thesis
  proof (cases r)
    case (Inl err)
    with Pair assms show ?thesis by (simp add: fetch_def json_headers)
  next
    case (Inr resp)
    with Pair have "router rt req allow (request_origin req) (SITE e) = (Inr resp, st)" by simp
    from router_headers [OF this] obtain ct
      where "headers resp = corsHeaders allow (request_origin req) @ [(''Content-Type'', ct)]" ..
    with Pair Inr assms show ?thesis by (simp add: fetch_def)
  qed
qed

lemma cors_lookup:
  "map_of (corsHeaders allow origin @ [(''Content-Type'', ct)]) ''Access-Control-Allow-Methods''
     = Some ''GET,POST,OPTIONS''"
  "map_of (corsHeaders allow origin @ [(''Content-Type'', ct)]) ''Access-Control-Allow-Headers''
     = Some ''content-type, authorization''"
  "map_of (corsHeaders allow origin @ [(''Content-Type'', ct)]) ''Access-Control-Max-Age''
     = Some ''86400''"
  "map_of (corsHeaders allow origin @ [(''Content-Type'', ct)]) ''Access-Control-Allow-Origin''
     = (if allow then Some origin else None)"
  by (simp_all add: corsHeaders_def)

lemma example_decision:
  "allow_decision example_env ''https://mb.meyoustudios.com'' = Inr True"
  "allow_decision example_env ''https://evil.example'' = Inr False"
  by (simp_all add: allow_decision_def config_text_def example_env_def)

lemma example_request_simps:
  "req_method (example_request m p q t) = m"
  "req_pathname (example_request m p q t) = p"
  "req_searchParams (example_request m p q t) = q"
  "req_text (example_request m p q t) = t"
  "request_origin (example_request m p q t) = ''https://mb.meyoustudios.com''"
  by (simp_all add: example_request_def request_origin_def)

lemma example_env_simps:
  "SITE example_env = example_bucket"
  "allow_decision example_env (request_origin (example_request m p q t)) = Inr True"
  by (simp add: example_env_def) (simp add: example_request_simps example_decision)

text \<open>
  C1. When the configuration is a JSON array, the allowlist, every request whose method
  is not \<^verbatim>\<open>OPTIONS\<close> gets a response, whatever the route, the bucket and the outcome of
  the route (also on the path of no match and on the path of the \<^verbatim>\<open>catch\<close>), and this
  response carries the three fixed CORS headers. It carries
  \<^verbatim>\<open>Access-Control-Allow-Origin\<close>, equal to the request's origin, exactly when that origin
  is on the allowlist; otherwise the header is absent.
\<close>

theorem cors_headers_on_every_response:
  assumes "JSON_parse (config_text e) = Inr (JArr allowlist)"
    and "req_method req \<noteq> ''OPTIONS''"
  shows "\<exists>resp st'. fetch rt req e = (Inr resp, st') \<and>
      map_of (headers resp) ''Access-Control-Allow-Methods'' = Some ''GET,POST,OPTIONS'' \<and>
      map_of (headers resp) ''Access-Control-Allow-Headers'' = Some ''content-type, authorization'' \<and>
      map_of (headers resp) ''Access-Control-Max-Age'' = Some ''86400'' \<and>
      map_of (headers resp) ''Access-Control-Allow-Origin'' =
        (if JStr (request_origin req) \<in> set allowlist then Some (request_origin req) else None)"
proof -
  from assms(1)
  have "allow_decision e (request_origin req) = Inr (JStr (request_origin req) \<in> set allowlist)"
    by (simp add: allow_decision_def)
  from fetch_headers [OF this assms(2), of rt] obtain resp st' ct
    where f: "fetch rt req e = (Inr resp, st')"
      and h: "headers resp =
        corsHeaders (JStr (request_origin req) \<in> set allowlist) (request_origin req) @ [(''Content-Type'', ct)]"
    by (elim exE conjE)
  show ?thesis
  proof (intro exI conjI)
    show "fetch rt req e = (Inr resp, st')" by (rule f)
  qed (simp_all only: h cors_lookup)
qed

theorem cors_headers_on_every_response_witness:
  "(\<exists>resp st'. fetch example_runtime (example_request ''GET'' ''/api/nowhere'' [] EmptyText) example_env = (Inr resp, st') \<and>
      map_of (headers resp) ''Access-Control-Allow-Methods'' = Some ''GET,POST,OPTIONS'' \<and>
      map_of (headers resp) ''Access-Control-Allow-Headers'' = Some ''content-type, authorization'' \<and>
      map_of (headers resp) ''Access-Control-Max-Age'' = Some ''86400'' \<and>
      map_of (headers resp) ''Access-Control-Allow-Origin'' = Some ''https://mb.meyoustudios.com'') \<and>
   (\<exists>resp st'. fetch example_runtime (foreign_request ''POST'' ''/api/write'') example_env = (Inr resp, st') \<and>
      map_of (headers resp) ''Access-Control-Allow-Methods'' = Some ''GET,POST,OPTIONS'' \<and>
      map_of (headers resp) ''Access-Control-Allow-Headers'' = Some ''content-type, authorization'' \<and>
      map_of (headers resp) ''Access-Control-Max-Age'' = Some ''86400'' \<and>
      map_of (headers resp) ''Access-Control-Allow-Origin'' = None)"
proof -
  have cfg: "JSON_parse (config_text example_env) =
      Inr (JArr [JStr ''https://mb.meyoustudios.com'', JStr ''https://mb.pages.dev''])"
    by (simp add: config_text_def example_env_def)
  have m1: "req_method (example_request ''GET'' ''/api/nowhere'' [] EmptyText) \<noteq> ''OPTIONS''"
    by (simp add: example_request_def)
  have m2: "req_method (foreign_request ''POST'' ''/api/write'') \<noteq> ''OPTIONS''"
    by (simp add: foreign_request_def)
  have o1: "request_origin (example_request ''GET'' ''/api/nowhere'' [] EmptyText) = ''https://mb.meyoustudios.com''"
    by (simp add: request_origin_def example_request_def)
  have o2: "request_origin (foreign_request ''POST'' ''/api/write'') = ''https://evil.example''"
    by (simp add: request_origin_def foreign_request_def)
  have a: "\<exists>resp st'. fetch example_runtime (example_request ''GET'' ''/api/nowhere'' [] EmptyText) example_env = (Inr resp, st') \<and>
      map_of (headers resp) ''Access-Control-Allow-Methods'' = Some ''GET,POST,OPTIONS'' \<and>
      map_of (headers resp) ''Access-Control-Allow-Headers'' = Some ''content-type, authorization'' \<and>
      map_of (headers resp) ''Access-Control-Max-Age'' = Some ''86400'' \<and>
      map_of (headers resp) ''Access-Control-Allow-Origin'' = Some ''https://mb.meyoustudios.com''"
    using cors_headers_on_every_response [OF cfg m1, of example_runtime] unfolding o1 by simp
  have b: "\<exists>resp st'. fetch example_runtime (foreign_request ''POST'' ''/api/write'') example_env = (Inr resp, st') \<and>
      map_of (headers resp) ''Access-Control-Allow-Methods'' = Some ''GET,POST,OPTIONS'' \<and>
      map_of (headers resp) ''Access-Control-Allow-Headers'' = Some ''content-type, authorization'' \<and>
      map_of (headers resp) ''Access-Control-Max-Age'' = Some ''86400'' \<and>
      map_of (headers resp) ''Access-Control-Allow-Origin'' = None"
    using cors_headers_on_every_response [OF cfg m2, of example_runtime] unfolding o2 by simp
  from a b show ?thesis by (rule conjI)
qed

section \<open>The configuration\<close>

text \<open>
  C2. The specification has a malformed configuration yield the empty allowlist and every
  request a shaped response. The code parses the configuration on line 11, before the
  \<^verbatim>\<open>try\<close> of line 21: when \<^verbatim>\<open>ALLOW_ORIGINS\<close> is a text that is not JSON, the handler
  throws the \<^verbatim>\<open>SyntaxError\<close> of \<^verbatim>\<open>JSON.parse\<close> for every request, whatever its method and
  route, and makes no response; when it is the JSON of an object, the handler throws at
  \<^verbatim>\<open>origins.includes\<close> in the same way. A configuration that is absent or empty does give
  the empty allowlist: no origin is allowed.
\<close>

theorem malformed_config_escapes:
  "fetch rt req \<lparr>ALLOW_ORIGINS = Some (Unparsable m), SITE = st\<rparr> = (Inl (SyntaxError m), st) \<and>
   fetch rt req \<lparr>ALLOW_ORIGINS = Some (ParsesTo (JObj ps)), SITE = st\<rparr> =
     (Inl (TypeError ''origins.includes is not a function''), st) \<and>
   allow_decision \<lparr>ALLOW_ORIGINS = None, SITE = st\<rparr> origin = Inr False \<and>
   allow_decision \<lparr>ALLOW_ORIGINS = Some EmptyText, SITE = st\<rparr> origin = Inr False"
  by (simp add: fetch_def allow_decision_def config_text_def)

theorem malformed_config_escapes_witness:
  "fetch example_runtime (foreign_request ''OPTIONS'' ''/api/ping'')
     \<lparr>ALLOW_ORIGINS = Some (Unparsable ''Unexpected token h in JSON at position 0''),
      SITE = example_bucket\<rparr> =
     (Inl (SyntaxError ''Unexpected token h in JSON at position 0''), example_bucket)"
  using malformed_config_escapes [of example_runtime "foreign_request ''OPTIONS'' ''/api/ping''"
      "''Unexpected token h in JSON at position 0''" example_bucket]
  by (rule conjunct1)

section \<open>The preflight\<close>

text \<open>
  C3. When the configuration is a JSON array, the allowlist, a request with the method
  \<^verbatim>\<open>OPTIONS\<close> is answered with the status 204, no body and the CORS headers only: the
  three fixed headers, followed by \<^verbatim>\<open>Access-Control-Allow-Origin\<close> with the request's
  origin exactly when that origin is on the allowlist. The answer is the same for every
  path, runtime and bucket, and the bucket is left as it was: no route is matched and no
  handler runs.
\<close>

theorem options_preflight:
  assumes "JSON_parse (config_text e) = Inr (JArr allowlist)"
    and "req_method req = ''OPTIONS''"
  shows "fetch rt req e =
     (Inr \<lparr>status = 204,
           headers =
             [(''Access-Control-Allow-Methods'', ''GET,POST,OPTIONS''),
              (''Access-Control-Allow-Headers'', ''content-type, authorization''),
              (''Access-Control-Max-Age'', ''86400'')] @
             (if JStr (request_origin req) \<in> set allowlist
              then [(''Access-Control-Allow-Origin'', request_origin req)] else []),
           body = NoBody\<rparr>,
      SITE e)"
proof -
  from assms(1)
  have "allow_decision e (request_origin req) = Inr (JStr (request_origin req) \<in> set allowlist)"
    by (simp add: allow_decision_def)
  with assms(2) show ?thesis by (simp add: fetch_def corsHeaders_def)
qed

theorem options_preflight_witness:
  "fetch example_runtime (example_request ''OPTIONS'' ''/no/such/route'' [] EmptyText) example_env =
     (Inr \<lparr>status = 204,
           headers = [(''Access-Control-Allow-Methods'', ''GET,POST,OPTIONS''),
                      (''Access-Control-Allow-Headers'', ''content-type, authorization''),
                      (''Access-Control-Max-Age'', ''86400''),
                      (''Access-Control-Allow-Origin'', ''https://mb.meyoustudios.com'')],
           body = NoBody\<rparr>, example_bucket) \<and>
   fetch example_runtime (foreign_request ''OPTIONS'' ''/api/write'') example_env =
     (Inr \<lparr>status = 204,
           headers = [(''Access-Control-Allow-Methods'', ''GET,POST,OPTIONS''),
                      (''Access-Control-Allow-Headers'', ''content-type, authorization''),
                      (''Access-Control-Max-Age'', ''86400'')],
           body = NoBody\<rparr>, example_bucket)"
proof (rule conjI)
  have cfg: "JSON_parse (config_text example_env) =
      Inr (JArr [JStr ''https://mb.meyoustudios.com'', JStr ''https://mb.pages.dev''])"
    by (simp add: config_text_def example_env_def)
  have o: "request_origin (foreign_request ''OPTIONS'' ''/api/write'') = ''https://evil.example''"
    by (simp add: request_origin_def foreign_request_def)
  have m: "req_method (foreign_request ''OPTIONS'' ''/api/write'') = ''OPTIONS''"
    by (simp add: foreign_request_def)
  show "fetch example_runtime (example_request ''OPTIONS'' ''/no/such/route'' [] EmptyText) example_env =
     (Inr \<lparr>status = 204,
           headers = [(''Access-Control-Allow-Methods'', ''GET,POST,OPTIONS''),
                      (''Access-Control-Allow-Headers'', ''content-type, authorization''),
                      (''Access-Control-Max-Age'', ''86400''),
                      (''Access-Control-Allow-Origin'', ''https://mb.meyoustudios.com'')],
           body = NoBody\<rparr>, example_bucket)"
    using options_preflight [where rt = example_runtime and e = example_env
        and req = "example_request ''OPTIONS'' ''/no/such/route'' [] EmptyText",
        OF cfg example_request_simps(1)]
    by (simp add: example_request_simps example_env_simps(1))
  show "fetch example_runtime (foreign_request ''OPTIONS'' ''/api/write'') example_env =
     (Inr \<lparr>status = 204,
           headers = [(''Access-Control-Allow-Methods'', ''GET,POST,OPTIONS''),
                      (''Access-Control-Allow-Headers'', ''content-type, authorization''),
                      (''Access-Control-Max-Age'', ''86400'')],
           body = NoBody\<rparr>, example_bucket)"
    using options_preflight [where rt = example_runtime and e = example_env
        and req = "foreign_request ''OPTIONS'' ''/api/write''", OF cfg m]
    by (simp add: o example_env_simps(1))
qed

section \<open>The content type classifier\<close>







section \<open>Empty and malformed JSON bodies\<close>



section \<open>The bucket\<close>

lemma map_of_store_update: "map_of (store_update k b st) = (map_of st)(k \<mapsto> b)"
  by (induction st) (auto simp: fun_eq_iff)

lemma SITE_get_put:
  "SITE_get (SITE_put st k d ct) k = Some \<lparr>blob_data = d, blob_contentType = ct, blob_uploaded = None\<rparr>"
  by (simp add: SITE_get_def SITE_put_def map_of_store_update)

lemma allow_decision_SITE: "allow_decision (e\<lparr>SITE := st\<rparr>) origin = allow_decision e origin"
  by (simp add: allow_decision_def config_text_def)

lemma write_ok:
  assumes "req_text w = ParsesTo (JObj [(''path'', JStr p), (''content'', JStr c)])" and "p \<noteq> []"
  shows "handle_write w allow origin st =
     (Inr (json (JObj [(''ok'', JBool True), (''path'', JStr p)]) allow origin 200),
      SITE_put st p (Text c) (contentType p))"
  using assms by (simp add: handle_write_def safeJson_simps put_file_def)

lemma read_ok:
  assumes "map_of (req_searchParams r) ''path'' = Some p" and "p \<noteq> []"
    and "SITE_get st p = Some obj"
  shows "handle_read rt r allow origin st =
     \<lparr>status = 200, headers = corsHeaders allow origin @ [(''Content-Type'', contentType p)],
      body = TextBody (blob_text rt (blob_data obj))\<rparr>"
  using assms by (simp add: handle_read_def)




section \<open>Write, then read\<close>

text \<open>
  C5. For every path \<open>p\<close> that is not empty and every content \<open>c\<close>, both strings: a
  \<^verbatim>\<open>POST /api/write\<close> whose body is the JSON object \<^verbatim>\<open>{path: p, content: c}\<close> answers
  \<^verbatim>\<open>{ok: true, path: p}\<close> and puts \<open>c\<close> at \<open>p\<close>; a \<^verbatim>\<open>GET /api/read?path=p\<close> against the
  bucket it leaves answers 200 with the raw body \<open>c\<close> and the content type that the
  classifier gives \<open>p\<close>.
\<close>

theorem write_then_read:
  assumes "allow_decision e (request_origin w) = Inr allow_w"
    and "req_method w = ''POST''" and "req_pathname w = ''/api/write''"
    and "req_text w = ParsesTo (JObj [(''path'', JStr p), (''content'', JStr c)])"
    and "p \<noteq> []"
    and "allow_decision e (request_origin r) = Inr allow_r"
    and "req_method r = ''GET''" and "req_pathname r = ''/api/read''"
    and "map_of (req_searchParams r) ''path'' = Some p"
  shows "fetch rt w e =
      (Inr (json (JObj [(''ok'', JBool True), (''path'', JStr p)]) allow_w (request_origin w) 200),
       SITE_put (SITE e) p (Text c) (contentType p)) \<and>
    fetch rt' r (e\<lparr>SITE := snd (fetch rt w e)\<rparr>) =
      (Inr \<lparr>status = 200,
            headers = corsHeaders allow_r (request_origin r) @ [(''Content-Type'', contentType p)],
            body = TextBody c\<rparr>,
       snd (fetch rt w e))"
proof -
  let ?st = "SITE_put (SITE e) p (Text c) (contentType p)"
  have "router rt w allow_w (request_origin w) (SITE e) =
      (Inr (json (JObj [(''ok'', JBool True), (''path'', JStr p)]) allow_w (request_origin w) 200), ?st)"
    using assms(2,3) write_ok [OF assms(4,5)] by (simp add: router_write)
  from fetch_router [OF assms(1) post_not_options [OF assms(2)] this]
  have w: "fetch rt w e =
      (Inr (json (JObj [(''ok'', JBool True), (''path'', JStr p)]) allow_w (request_origin w) 200), ?st)" .
  have d: "allow_decision (e\<lparr>SITE := ?st\<rparr>) (request_origin r) = Inr allow_r"
    using assms(6) by (simp add: allow_decision_SITE)
  have "handle_read rt' r allow_r (request_origin r) ?st =
      \<lparr>status = 200,
       headers = corsHeaders allow_r (request_origin r) @ [(''Content-Type'', contentType p)],
       body = TextBody c\<rparr>"
    using read_ok [OF assms(9,5) SITE_get_put] by simp
  then have "router rt' r allow_r (request_origin r) (SITE (e\<lparr>SITE := ?st\<rparr>)) =
      (Inr \<lparr>status = 200,
            headers = corsHeaders allow_r (request_origin r) @ [(''Content-Type'', contentType p)],
            body = TextBody c\<rparr>, ?st)"
    using assms(7,8) by (simp add: router_read)
  from fetch_router [OF d get_not_options [OF assms(7)] this] w
  show ?thesis by simp
qed

theorem write_then_read_witness:
  "fetch example_runtime (example_request ''GET'' ''/api/read'' [(''path'', ''x.html'')] EmptyText)
     (example_env\<lparr>SITE :=
        snd (fetch example_runtime
               (example_request ''POST'' ''/api/write'' []
                  (ParsesTo (JObj [(''path'', JStr ''x.html''), (''content'', JStr ''<p>hi</p>'')])))
               example_env)\<rparr>) =
     (Inr \<lparr>status = 200,
           headers = corsHeaders True ''https://mb.meyoustudios.com'' @
                     [(''Content-Type'', ''text/html; charset=utf-8'')],
           body = TextBody ''<p>hi</p>''\<rparr>,
      snd (fetch example_runtime
             (example_request ''POST'' ''/api/write'' []
                (ParsesTo (JObj [(''path'', JStr ''x.html''), (''content'', JStr ''<p>hi</p>'')])))
             example_env))"
proof -
  have ct: "contentType ''x.html'' = ''text/html; charset=utf-8''" by code_simp
  have ne: "''x.html'' \<noteq> []" by simp
  have q: "map_of (req_searchParams (example_request ''GET'' ''/api/read'' [(''path'', ''x.html'')] EmptyText))
      ''path'' = Some ''x.html''"
    by (simp add: example_request_simps)
  from write_then_read [where rt = example_runtime and rt' = example_runtime and e = example_env
      and w = "example_request ''POST'' ''/api/write'' []
                  (ParsesTo (JObj [(''path'', JStr ''x.html''), (''content'', JStr ''<p>hi</p>'')]))"
      and r = "example_request ''GET'' ''/api/read'' [(''path'', ''x.html'')] EmptyText"
      and p = "''x.html''" and c = "''<p>hi</p>''",
      OF example_env_simps(2) example_request_simps(1,2,4) ne
      example_env_simps(2) example_request_simps(1,2) q, THEN conjunct2]
  show ?thesis by (simp only: ct example_request_simps(5))
qed

section \<open>Listing\<close>




section \<open>Upload\<close>
























section \<open>Apply-diff\<close>















section \<open>Generate-html\<close>









end
